theory Spec2Isabelle
  imports Main "HOL-Library.Word"
begin

unbundle bit_operations_syntax

section \<open>Data model\<close>

text \<open>
  The repository holds two variants of one websocket audio receiver, \<^verbatim>\<open>app.py\<close> and
  \<^verbatim>\<open>main.py\<close>. A Python \<^verbatim>\<open>bytes\<close> object is a list of 8-bit words, a client
  identifier and a file name are strings, and the dictionary \<^verbatim>\<open>clients_audios\<close> is a
  map from client identifiers to lists of chunks.
\<close>

type_synonym byte = "8 word"
type_synonym bytes = "byte list"

text \<open>
  Exceptions other than \<^verbatim>\<open>asyncio.TimeoutError\<close>. The handler's
  \<^verbatim>\<open>except Exception\<close> catches the first kind only; the second kind stands for
  exceptions that derive from \<^verbatim>\<open>BaseException\<close> alone (a cancellation of the task).
\<close>

datatype exn = Exception string | BaseException string

fun is_Exception :: "exn \<Rightarrow> bool" where
  "is_Exception (Exception m) = True"
| "is_Exception (BaseException m) = False"

text \<open>
  What a file holds after it was written: the bytes given to \<^verbatim>\<open>f.write\<close>, or, for a
  file produced through the \<^verbatim>\<open>wave\<close> module, the three header parameters the code
  sets (channels, sample width in bytes, frame rate) and the frames handed to
  \<^verbatim>\<open>writeframes\<close>.
\<close>

datatype file_content = Raw bytes | Wave nat nat nat bytes

text \<open>
  The calls to \<^verbatim>\<open>logging\<close>, one constructor per call site, carrying the values the
  message is formatted from (the md5 digest of a frame is a function of the frame and
  appears in the message text only).
\<close>

datatype log_entry =
    ConnectionEstablished string
  | FrameReceived nat string
  | FrameReceivedFrom string
  | ErrorSavingAudio string
  | SavedAudio string string
  | ConnectionClosed string exn
  | ExceptionTraceback exn

text \<open>
  The world outside the process. \<open>writes\<close> is the history of completed file writes,
  newest first, so that \<open>map_of (writes e) name\<close> is what the file \<open>name\<close> holds;
  \<open>logged\<close> is the log, oldest first. \<open>open_error\<close> says for which file names opening
  the file for writing raises an \<^verbatim>\<open>OSError\<close> (with which message), and
  \<open>cast_invalid\<close> is the platform's result of converting a NaN or out-of-range
  \<^verbatim>\<open>float32\<close> to \<^verbatim>\<open>int32\<close>, which numpy leaves to the hardware.
\<close>

datatype f32 = Finite bool nat int | Inf bool | NaN

record env =
  writes :: "(string \<times> file_content) list"
  logged :: "log_entry list"
  open_error :: "string \<Rightarrow> string option"
  cast_invalid :: "f32 \<Rightarrow> 32 word"

record service =
  clients_audios :: "string \<rightharpoonup> bytes list"

section \<open>numpy's float32 samples\<close>

text \<open>
  \<^verbatim>\<open>np.frombuffer(data, dtype=np.float32)\<close> reads consecutive groups of four bytes
  as IEEE 754 single precision numbers in the machine's byte order, taken to be
  little-endian, and raises \<^verbatim>\<open>ValueError\<close> (\<open>None\<close> here) when the size of the
  buffer is not a multiple of four. \<open>Finite s m e\<close> is the number \<open>(-1)^s * m * 2^e\<close>.
\<close>

fun frombuffer :: "bytes \<Rightarrow> 32 word list option" where
  "frombuffer [] = Some []"
| "frombuffer (b0 # b1 # b2 # b3 # rest) =
     map_option
       ((#) (ucast b0 OR push_bit 8 (ucast b1) OR push_bit 16 (ucast b2)
             OR push_bit 24 (ucast b3)))
       (frombuffer rest)"
| "frombuffer rest = None"

definition f32_of_word :: "32 word \<Rightarrow> f32" where
  "f32_of_word w =
     (let s = bit w 31;
          ex = unat (drop_bit 23 w AND 0xFF);
          man = unat (w AND 0x7FFFFF)
      in if ex = 255 then (if man = 0 then Inf s else NaN)
         else if ex = 0 then Finite s man (- 149)
         else Finite s (2 ^ 23 + man) (int ex - 150))"

text \<open>The number of low bits a significand has beyond 24.\<close>

fun excess_bits :: "nat \<Rightarrow> nat" where
  "excess_bits p = (if p < 2 ^ 24 then 0 else Suc (excess_bits (p div 2)))"

declare excess_bits.simps [simp del]

text \<open>
  Rounding the exact value \<open>(-1)^s * p * 2^e\<close> (with \<open>e \<ge> -149\<close>) to single precision:
  to nearest, ties to even, overflowing to infinity.
\<close>

definition f32_round :: "bool \<Rightarrow> nat \<Rightarrow> int \<Rightarrow> f32" where
  "f32_round s p e =
     (let k = excess_bits p;
          q = p div 2 ^ k;
          r = p mod 2 ^ k;
          q' = (if 2 ^ k < 2 * r \<or> (2 * r = 2 ^ k \<and> odd q) then q + 1 else q);
          e' = e + int k
      in if 0 \<le> e' \<and> 2 ^ 128 \<le> q' * 2 ^ nat e' then Inf s else Finite s q' e')"

text \<open>\<^verbatim>\<open>data_np * 32767\<close>: a float32 array times a Python int is a float32 array.\<close>

fun mul_32767 :: "f32 \<Rightarrow> f32" where
  "mul_32767 (Finite s m e) = f32_round s (m * 32767) e"
| "mul_32767 (Inf s) = Inf s"
| "mul_32767 NaN = NaN"

text \<open>\<^verbatim>\<open>.astype(np.int32)\<close>: truncation towards zero where the result fits.\<close>

fun astype_int32 :: "(f32 \<Rightarrow> 32 word) \<Rightarrow> f32 \<Rightarrow> 32 word" where
  "astype_int32 invalid (Finite s m e) =
     (let mag = (if 0 \<le> e then m * 2 ^ nat e else m div 2 ^ nat (- e))
      in if s then (if mag \<le> 2 ^ 31 then word_of_int (- int mag) else invalid (Finite s m e))
         else (if mag < 2 ^ 31 then word_of_nat mag else invalid (Finite s m e)))"
| "astype_int32 invalid x = invalid x"

text \<open>\<^verbatim>\<open>int_frames.tobytes()\<close>, little-endian.\<close>

definition int32_bytes :: "32 word \<Rightarrow> bytes" where
  "int32_bytes w = [ucast w, ucast (drop_bit 8 w), ucast (drop_bit 16 w), ucast (drop_bit 24 w)]"

definition tobytes :: "32 word list \<Rightarrow> bytes" where
  "tobytes ws = concat (map int32_bytes ws)"

section \<open>The service of app.py\<close>

text \<open>\<^verbatim>\<open>__init__\<close>: a new instance has an empty dictionary.\<close>

definition init_service :: service where
  "init_service = \<lparr>clients_audios = Map.empty\<rparr>"

text \<open>
  \<^verbatim>\<open>process_audio_frame\<close> creates the client's list when the key is missing, appends
  the chunk and logs. The value under \<^verbatim>\<open>"bytes"\<close> is a bytes object, as the
  annotation \<^verbatim>\<open>data: bytes\<close> says and as uvicorn delivers it.
\<close>

definition process_audio_frame :: "service \<Rightarrow> bytes \<Rightarrow> string \<Rightarrow> env \<Rightarrow> service \<times> env" where
  "process_audio_frame self data client_id e =
     (let ca = (case clients_audios self client_id of
                  None \<Rightarrow> (clients_audios self)(client_id \<mapsto> [])
                | Some xs \<Rightarrow> clients_audios self);
          ca' = (case ca client_id of
                   None \<Rightarrow> ca
                 | Some xs \<Rightarrow> ca(client_id \<mapsto> xs @ [data]))
      in (self\<lparr>clients_audios := ca'\<rparr>,
          e\<lparr>logged := logged e @ [FrameReceived (length data) client_id]\<rparr>))"

text \<open>
  \<^verbatim>\<open>save_wav\<close>: the buffer is cut to a multiple of four bytes and read as float32
  samples, both before the \<^verbatim>\<open>try\<close>, so that an exception of
  \<^verbatim>\<open>np.frombuffer\<close> would leave the function. Inside the \<^verbatim>\<open>try\<close> the samples
  are scaled and converted and the wave file is opened and written; an exception there
  (the file cannot be opened) is caught and logged, and the function returns normally.
  The first component of the result is the exception raised, if any.
\<close>

definition save_wav :: "bytes \<Rightarrow> string \<Rightarrow> env \<Rightarrow> exn option \<times> env" where
  "save_wav data filename e =
     (case frombuffer (take (length data div 4 * 4) data) of
        None \<Rightarrow> (Some (Exception ''buffer size must be a multiple of element size''), e)
      | Some ws \<Rightarrow>
          (let data_np = map f32_of_word ws
           in case open_error e filename of
                Some msg \<Rightarrow> (None, e\<lparr>logged := logged e @ [ErrorSavingAudio msg]\<rparr>)
              | None \<Rightarrow>
                  (let int_frames =
                         map (\<lambda>x. astype_int32 (cast_invalid e) (mul_32767 x)) data_np;
                       num_channels = 1;
                       sample_width = 4;
                       frame_rate = 16000
                   in (None,
                       e\<lparr>writes := (filename, Wave num_channels sample_width frame_rate
                                       (tobytes int_frames)) # writes e\<rparr>))))"

text \<open>
  \<^verbatim>\<open>save_audio\<close> pops the client's list (the key is gone afterwards, whatever
  follows), returns early when there was none or it was empty, and otherwise writes the
  joined chunks to \<^verbatim>\<open><client_id>.webm\<close> and calls \<^verbatim>\<open>save_wav\<close> on the same
  bytes. Opening the raw file is not inside any \<^verbatim>\<open>try\<close>: when it raises, the
  exception leaves \<^verbatim>\<open>save_audio\<close>. The first component of the result is the
  exception raised, if any.
\<close>

definition save_audio :: "service \<Rightarrow> string \<Rightarrow> env \<Rightarrow> exn option \<times> service \<times> env" where
  "save_audio self client_id e =
     (let audio_data = clients_audios self client_id;
          self' = self\<lparr>clients_audios := (clients_audios self)(client_id := None)\<rparr>
      in case audio_data of
           None \<Rightarrow> (None, self', e)
         | Some xs \<Rightarrow>
             if xs = [] then (None, self', e)
             else
               (let webm = concat xs;
                    wav = webm;
                    webm_filename = client_id @ ''.webm'';
                    wav_filename = client_id @ ''.wav''
                in case open_error e webm_filename of
                     Some msg \<Rightarrow> (Some (Exception msg), self', e)
                   | None \<Rightarrow>
                       (case save_wav wav wav_filename
                               (e\<lparr>writes := (webm_filename, Raw webm) # writes e\<rparr>) of
                          (Some x, e2) \<Rightarrow> (Some x, self', e2)
                        | (None, e2) \<Rightarrow>
                            (None, self',
                             e2\<lparr>logged := logged e2
                                  @ [SavedAudio client_id webm_filename]\<rparr>))))"

text \<open>
  \<^verbatim>\<open>no_voice_activity\<close> finalizes when the client has an entry and the list is
  not empty. Its second parameter is never used (the handler passes \<open>-1\<close>) and is left
  out.
\<close>

definition no_voice_activity :: "service \<Rightarrow> string \<Rightarrow> env \<Rightarrow> exn option \<times> service \<times> env" where
  "no_voice_activity self client_id e =
     (case clients_audios self client_id of
        None \<Rightarrow> (None, self, e)
      | Some xs \<Rightarrow> if xs \<noteq> [] then save_audio self client_id e else (None, self, e))"

definition pop_clients_audios :: "service \<Rightarrow> string \<Rightarrow> service" where
  "pop_clients_audios self client_id =
     (case clients_audios self client_id of
        None \<Rightarrow> self
      | Some xs \<Rightarrow> self\<lparr>clients_audios := (clients_audios self)(client_id := None)\<rparr>)"

text \<open>A sequence of calls of \<^verbatim>\<open>process_audio_frame\<close> for one client, in arrival order.\<close>

fun process_audio_frames :: "service \<Rightarrow> bytes list \<Rightarrow> string \<Rightarrow> env \<Rightarrow> service \<times> env" where
  "process_audio_frames self [] client_id e = (self, e)"
| "process_audio_frames self (data # rest) client_id e =
     (case process_audio_frame self data client_id e of
        (self', e') \<Rightarrow> process_audio_frames self' rest client_id e')"

section \<open>The websocket handler of app.py\<close>

text \<open>
  The process state: the module-level dictionary \<^verbatim>\<open>connected_clients\<close> (a websocket
  is named by a number), the instance the \<^verbatim>\<open>Singleton\<close> metaclass keeps for
  \<^verbatim>\<open>VoiceReceiverService\<close> (none before the first call), and the outside world.
\<close>

type_synonym websocket = nat

record world =
  connected_clients :: "string \<rightharpoonup> websocket"
  instance_of :: "service option"
  outside :: env

text \<open>
  Modelled from the spec: the metaclass \<^verbatim>\<open>Singleton\<close> comes from the module
  \<^verbatim>\<open>singleton\<close>, which is not among the source files. The spec calls the pattern
  "per-call singleton construction of the service object": the first call
  \<^verbatim>\<open>VoiceReceiverService()\<close> runs \<^verbatim>\<open>__init__\<close> and keeps the instance, every
  later call returns that same instance.
\<close>

definition VoiceReceiverService :: "world \<Rightarrow> service \<times> world" where
  "VoiceReceiverService w =
     (case instance_of w of
        None \<Rightarrow> (init_service, w\<lparr>instance_of := Some init_service\<rparr>)
      | Some s \<Rightarrow> (s, w))"

text \<open>
  What \<^verbatim>\<open>websocket.receive()\<close> under \<^verbatim>\<open>asyncio.wait_for(..., timeout=5.0)\<close>
  produces: the timeout, a message, or another exception. A message is a dictionary that
  may have the key \<^verbatim>\<open>"bytes"\<close> and may have the key \<^verbatim>\<open>"text"\<close>
  (\<open>None\<close>: the key is missing), or something that is not a dictionary.
\<close>

datatype message = Dict "bytes option" "string option" | NotDict

datatype received = Timeout | Message message | Raises exn

text \<open>One pass through the body of \<^verbatim>\<open>while True\<close>.\<close>

datatype step = Continue world | Break world | Raise exn world

definition call_no_voice_activity :: "world \<Rightarrow> string \<Rightarrow> exn option \<times> world" where
  "call_no_voice_activity w client_id =
     (case VoiceReceiverService w of
        (self, w1) \<Rightarrow>
          (case no_voice_activity self client_id (outside w1) of
             (r, self', e') \<Rightarrow> (r, w1\<lparr>instance_of := Some self', outside := e'\<rparr>)))"

definition call_process_audio_frame :: "world \<Rightarrow> bytes \<Rightarrow> string \<Rightarrow> world" where
  "call_process_audio_frame w data client_id =
     (case VoiceReceiverService w of
        (self, w1) \<Rightarrow>
          (case process_audio_frame self data client_id (outside w1) of
             (self', e') \<Rightarrow> w1\<lparr>instance_of := Some self', outside := e'\<rparr>))"

definition call_pop_clients_audios :: "world \<Rightarrow> string \<Rightarrow> world" where
  "call_pop_clients_audios w client_id =
     (case VoiceReceiverService w of
        (self, w1) \<Rightarrow> w1\<lparr>instance_of := Some (pop_clients_audios self client_id)\<rparr>)"

fun loop_body :: "world \<Rightarrow> string \<Rightarrow> received \<Rightarrow> step" where
  "loop_body w client_id Timeout =
     (case call_no_voice_activity w client_id of
        (None, w') \<Rightarrow> Continue w'
      | (Some x, w') \<Rightarrow> Raise x w')"
| "loop_body w client_id (Raises x) = Raise x w"
| "loop_body w client_id (Message (Dict (Some data) t)) =
     Continue (call_process_audio_frame w data client_id)"
| "loop_body w client_id (Message (Dict None (Some data))) =
     (if data = ''close()''
      then (case call_no_voice_activity w client_id of
              (None, w') \<Rightarrow> Break w'
            | (Some x, w') \<Rightarrow> Raise x w')
      else Continue w)"
| "loop_body w client_id (Message (Dict None None)) = Break w"
| "loop_body w client_id (Message NotDict) = Break w"

text \<open>
  The loop over the events the connection delivers, in order. \<open>Receiving\<close>: every event
  so far was handled and the loop is waiting in \<^verbatim>\<open>receive\<close> again; \<open>Broke\<close>: it was
  left by \<^verbatim>\<open>break\<close>; \<open>Raised\<close>: it was left by an exception.
\<close>

datatype loop_result = Receiving world | Broke world | Raised exn world

fun run_loop :: "world \<Rightarrow> string \<Rightarrow> received list \<Rightarrow> loop_result" where
  "run_loop w client_id [] = Receiving w"
| "run_loop w client_id (ev # evs) =
     (case loop_body w client_id ev of
        Continue w' \<Rightarrow> run_loop w' client_id evs
      | Break w' \<Rightarrow> Broke w'
      | Raise x w' \<Rightarrow> Raised x w')"

text \<open>The \<^verbatim>\<open>except Exception\<close> clause and the \<^verbatim>\<open>finally\<close> clause.\<close>

definition except_block :: "world \<Rightarrow> string \<Rightarrow> exn \<Rightarrow> world" where
  "except_block w client_id x =
     w\<lparr>outside := (outside w)\<lparr>logged := logged (outside w)
          @ [ConnectionClosed client_id x, ExceptionTraceback x]\<rparr>\<rparr>"

definition finally_block :: "world \<Rightarrow> string \<Rightarrow> world" where
  "finally_block w client_id =
     (let w1 = call_pop_clients_audios w client_id
      in w1\<lparr>connected_clients := (connected_clients w1)(client_id := None)\<rparr>)"

text \<open>
  The handler from the accepted handshake on. \<open>Open w\<close>: the connection is open and the
  loop is waiting for the next event; \<open>Closed r w\<close>: the handler is over, \<open>r\<close> being the
  exception it ends with, if any.
\<close>

datatype outcome = Open world | Closed "exn option" world

definition get_audio :: "world \<Rightarrow> websocket \<Rightarrow> string \<Rightarrow> received list \<Rightarrow> outcome" where
  "get_audio w websocket client_id evs =
     (let w0 = w\<lparr>connected_clients := (connected_clients w)(client_id \<mapsto> websocket),
                 outside := (outside w)\<lparr>logged := logged (outside w)
                   @ [ConnectionEstablished client_id]\<rparr>\<rparr>
      in case run_loop w0 client_id evs of
           Receiving w' \<Rightarrow> Open w'
         | Broke w' \<Rightarrow> Closed None (finally_block w' client_id)
         | Raised x w' \<Rightarrow>
             if is_Exception x
             then Closed None (finally_block (except_block w' client_id x) client_id)
             else Closed (Some x) (finally_block w' client_id))"

section \<open>The variant main.py\<close>

text \<open>
  In \<^verbatim>\<open>main.py\<close> the class has no metaclass: \<^verbatim>\<open>VoiceReceiverService()\<close> is an
  ordinary constructor call, and the instance it returns is dropped when the statement
  that made it is over. \<^verbatim>\<open>save_audio\<close> writes the raw file only.
\<close>

definition main_VoiceReceiverService :: service where
  "main_VoiceReceiverService = init_service"

definition main_process_audio_frame :: "service \<Rightarrow> bytes \<Rightarrow> string \<Rightarrow> env \<Rightarrow> service \<times> env" where
  "main_process_audio_frame self data client_id e =
     (let ca = (case clients_audios self client_id of
                  None \<Rightarrow> (clients_audios self)(client_id \<mapsto> [])
                | Some xs \<Rightarrow> clients_audios self);
          ca' = (case ca client_id of
                   None \<Rightarrow> ca
                 | Some xs \<Rightarrow> ca(client_id \<mapsto> xs @ [data]))
      in (self\<lparr>clients_audios := ca'\<rparr>,
          e\<lparr>logged := logged e @ [FrameReceivedFrom client_id]\<rparr>))"

definition main_save_audio :: "service \<Rightarrow> string \<Rightarrow> env \<Rightarrow> exn option \<times> service \<times> env" where
  "main_save_audio self client_id e =
     (let audio_data = clients_audios self client_id;
          self' = self\<lparr>clients_audios := (clients_audios self)(client_id := None)\<rparr>
      in case audio_data of
           None \<Rightarrow> (None, self', e)
         | Some xs \<Rightarrow>
             if xs = [] then (None, self', e)
             else
               (let filename = client_id @ ''.webm''
                in case open_error e filename of
                     Some msg \<Rightarrow> (Some (Exception msg), self', e)
                   | None \<Rightarrow>
                       (None, self',
                        e\<lparr>writes := (filename, Raw (concat xs)) # writes e,
                          logged := logged e @ [SavedAudio client_id filename]\<rparr>)))"

definition main_no_voice_activity :: "service \<Rightarrow> string \<Rightarrow> env \<Rightarrow> exn option \<times> service \<times> env" where
  "main_no_voice_activity self client_id e =
     (case clients_audios self client_id of
        None \<Rightarrow> (None, self, e)
      | Some xs \<Rightarrow> if xs \<noteq> [] then main_save_audio self client_id e else (None, self, e))"

text \<open>
  The three call sites of the handler: each makes its own instance, and only what the
  call did to the outside world outlives it.
\<close>

definition main_call_no_voice_activity :: "world \<Rightarrow> string \<Rightarrow> exn option \<times> world" where
  "main_call_no_voice_activity w client_id =
     (case main_no_voice_activity main_VoiceReceiverService client_id (outside w) of
        (r, self', e') \<Rightarrow> (r, w\<lparr>outside := e'\<rparr>))"

definition main_call_process_audio_frame :: "world \<Rightarrow> bytes \<Rightarrow> string \<Rightarrow> world" where
  "main_call_process_audio_frame w data client_id =
     (case main_process_audio_frame main_VoiceReceiverService data client_id (outside w) of
        (self', e') \<Rightarrow> w\<lparr>outside := e'\<rparr>)"

definition main_call_pop_clients_audios :: "world \<Rightarrow> string \<Rightarrow> world" where
  "main_call_pop_clients_audios w client_id =
     (case pop_clients_audios main_VoiceReceiverService client_id of self' \<Rightarrow> w)"

fun main_loop_body :: "world \<Rightarrow> string \<Rightarrow> received \<Rightarrow> step" where
  "main_loop_body w client_id Timeout =
     (case main_call_no_voice_activity w client_id of
        (None, w') \<Rightarrow> Continue w'
      | (Some x, w') \<Rightarrow> Raise x w')"
| "main_loop_body w client_id (Raises x) = Raise x w"
| "main_loop_body w client_id (Message (Dict (Some data) t)) =
     Continue (main_call_process_audio_frame w data client_id)"
| "main_loop_body w client_id (Message (Dict None (Some data))) =
     (if data = ''close()''
      then (case main_call_no_voice_activity w client_id of
              (None, w') \<Rightarrow> Break w'
            | (Some x, w') \<Rightarrow> Raise x w')
      else Continue w)"
| "main_loop_body w client_id (Message (Dict None None)) = Break w"
| "main_loop_body w client_id (Message NotDict) = Break w"

fun main_run_loop :: "world \<Rightarrow> string \<Rightarrow> received list \<Rightarrow> loop_result" where
  "main_run_loop w client_id [] = Receiving w"
| "main_run_loop w client_id (ev # evs) =
     (case main_loop_body w client_id ev of
        Continue w' \<Rightarrow> main_run_loop w' client_id evs
      | Break w' \<Rightarrow> Broke w'
      | Raise x w' \<Rightarrow> Raised x w')"

definition main_finally_block :: "world \<Rightarrow> string \<Rightarrow> world" where
  "main_finally_block w client_id =
     (let w1 = main_call_pop_clients_audios w client_id
      in w1\<lparr>connected_clients := (connected_clients w1)(client_id := None)\<rparr>)"

definition main_get_audio :: "world \<Rightarrow> websocket \<Rightarrow> string \<Rightarrow> received list \<Rightarrow> outcome" where
  "main_get_audio w websocket client_id evs =
     (let w0 = w\<lparr>connected_clients := (connected_clients w)(client_id \<mapsto> websocket),
                 outside := (outside w)\<lparr>logged := logged (outside w)
                   @ [ConnectionEstablished client_id]\<rparr>\<rparr>
      in case main_run_loop w0 client_id evs of
           Receiving w' \<Rightarrow> Open w'
         | Broke w' \<Rightarrow> Closed None (main_finally_block w' client_id)
         | Raised x w' \<Rightarrow>
             if is_Exception x
             then Closed None (main_finally_block (except_block w' client_id x) client_id)
             else Closed (Some x) (main_finally_block w' client_id))"

text \<open>The state an outcome carries.\<close>

fun world_of :: "outcome \<Rightarrow> world" where
  "world_of (Open w) = w"
| "world_of (Closed r w) = w"

section \<open>Observations\<close>

text \<open>The contents written to the file \<open>name\<close>, newest first.\<close>

definition writes_to :: "env \<Rightarrow> string \<Rightarrow> file_content list" where
  "writes_to e name = map snd (filter (\<lambda>p. fst p = name) (writes e))"

fun is_Open :: "outcome \<Rightarrow> bool" where
  "is_Open (Open w) = True"
| "is_Open (Closed r w) = False"

fun is_Continue :: "step \<Rightarrow> bool" where
  "is_Continue (Continue w) = True"
| "is_Continue (Break w) = False"
| "is_Continue (Raise x w) = False"

text \<open>The chunks the shared instance holds for a client: what a drain would pop.\<close>

definition pending :: "world \<Rightarrow> string \<Rightarrow> bytes list option" where
  "pending w client_id =
     (case instance_of w of None \<Rightarrow> None | Some s \<Rightarrow> clients_audios s client_id)"

text \<open>
  Concrete surroundings for the examples: an outside world with nothing written or
  logged in which every file can be opened (an invalid conversion gives the smallest
  int32, as on x86), one in which the files named in \<open>bad\<close> cannot be opened, and a
  process that has just started.
\<close>

definition fresh_env :: env where
  "fresh_env = \<lparr>writes = [], logged = [], open_error = (\<lambda>name. None),
                 cast_invalid = (\<lambda>x. 0x80000000)\<rparr>"

definition failing_env :: "string list \<Rightarrow> env" where
  "failing_env bad =
     \<lparr>writes = [], logged = [],
      open_error = (\<lambda>name. if name \<in> set bad then Some ''Permission denied'' else None),
      cast_invalid = (\<lambda>x. 0x80000000)\<rparr>"

definition start_world :: "env \<Rightarrow> world" where
  "start_world e = \<lparr>connected_clients = Map.empty, instance_of = None, outside = e\<rparr>"

text \<open>The world in which the loop is entered: the client registered, the connection logged.\<close>

definition entered :: "world \<Rightarrow> websocket \<Rightarrow> string \<Rightarrow> world" where
  "entered w websocket client_id =
     w\<lparr>connected_clients := (connected_clients w)(client_id \<mapsto> websocket),
       outside := (outside w)\<lparr>logged := logged (outside w)
         @ [ConnectionEstablished client_id]\<rparr>\<rparr>"

section \<open>Properties of the service\<close>

lemma process_audio_frame_store:
  "clients_audios (fst (process_audio_frame self data cid e)) =
     (clients_audios self)(cid \<mapsto>
        (case clients_audios self cid of None \<Rightarrow> [] | Some xs \<Rightarrow> xs) @ [data])"
  by (simp add: process_audio_frame_def split: option.splits)

lemma process_audio_frame_env:
  "snd (process_audio_frame self data cid e) =
     e\<lparr>logged := logged e @ [FrameReceived (length data) cid]\<rparr>"
  by (simp add: process_audio_frame_def Let_def)

lemma process_audio_frames_store:
  "clients_audios (fst (process_audio_frames self chunks cid e)) cid =
     (if chunks = [] then clients_audios self cid
      else Some ((case clients_audios self cid of None \<Rightarrow> [] | Some xs \<Rightarrow> xs) @ chunks))"
proof (induction chunks arbitrary: self e)
  case Nil
  show ?case by simp
next
  case (Cons d ds)
  obtain s1 e1 where p: "process_audio_frame self d cid e = (s1, e1)"
    by (cases "process_audio_frame self d cid e")
  have s1: "clients_audios s1 cid
      = Some ((case clients_audios self cid of None \<Rightarrow> [] | Some xs \<Rightarrow> xs) @ [d])"
    using process_audio_frame_store [of self d cid e] p by simp
  show ?case using Cons.IH [of s1 e1] p s1 by simp
qed

lemma process_audio_frames_env:
  "writes (snd (process_audio_frames self chunks cid e)) = writes e \<and>
   open_error (snd (process_audio_frames self chunks cid e)) = open_error e \<and>
   cast_invalid (snd (process_audio_frames self chunks cid e)) = cast_invalid e"
proof (induction chunks arbitrary: self e)
  case Nil
  show ?case by simp
next
  case (Cons d ds)
  obtain s1 e1 where p: "process_audio_frame self d cid e = (s1, e1)"
    by (cases "process_audio_frame self d cid e")
  have "e1 = e\<lparr>logged := logged e @ [FrameReceived (length d) cid]\<rparr>"
    using process_audio_frame_env [of self d cid e] p by simp
  then show ?case using Cons.IH [of s1 e1] p by simp
qed

text \<open>A buffer of whole samples is always read, one sample for every four bytes.\<close>

lemma frombuffer_multiple:
  "4 dvd length data \<Longrightarrow> \<exists>ws. frombuffer data = Some ws \<and> length ws = length data div 4"
proof (induction data rule: frombuffer.induct)
  case (2 b0 b1 b2 b3 rest)
  have "length (b0 # b1 # b2 # b3 # rest) = length rest + 4" by simp
  then have "4 dvd length rest" using "2.prems" by (metis dvd_add_triv_right_iff)
  then obtain ws where "frombuffer rest = Some ws" "length ws = length rest div 4"
    using "2.IH" by blast
  then show ?case by simp
qed (simp; presburger)+

lemma frombuffer_truncated:
  "\<exists>ws. frombuffer (take (length data div 4 * 4) data) = Some ws
        \<and> length ws = length data div 4"
proof -
  have l: "length (take (length data div 4 * 4) data) = length data div 4 * 4"
    by simp
  then have "4 dvd length (take (length data div 4 * 4) data)"
    by simp
  from frombuffer_multiple [OF this] l show ?thesis
    by simp
qed

text \<open>Hence \<^verbatim>\<open>save_wav\<close> never raises, and it touches no file but its own.\<close>

lemma save_wav_returns: "fst (save_wav data filename e) = None"
proof -
  obtain ws where "frombuffer (take (length data div 4 * 4) data) = Some ws"
    using frombuffer_truncated [of data] by blast
  then show ?thesis
    by (simp add: save_wav_def split: option.splits)
qed

lemma save_wav_other_file:
  "name \<noteq> filename \<Longrightarrow> writes_to (snd (save_wav data filename e)) name = writes_to e name"
  by (simp add: save_wav_def writes_to_def split: option.splits)

lemma save_wav_oracles:
  "open_error (snd (save_wav data filename e)) = open_error e"
  by (simp add: save_wav_def split: option.splits)

lemma save_audio_nonempty:
  assumes "clients_audios self cid = Some xs" and "xs \<noteq> []"
    and "open_error e (cid @ ''.webm'') = None"
  shows "save_audio self cid e =
           (None, self\<lparr>clients_audios := (clients_audios self)(cid := None)\<rparr>,
            (snd (save_wav (concat xs) (cid @ ''.wav'')
                    (e\<lparr>writes := (cid @ ''.webm'', Raw (concat xs)) # writes e\<rparr>)))
              \<lparr>logged := logged (snd (save_wav (concat xs) (cid @ ''.wav'')
                    (e\<lparr>writes := (cid @ ''.webm'', Raw (concat xs)) # writes e\<rparr>)))
                  @ [SavedAudio cid (cid @ ''.webm'')]\<rparr>)"
proof -
  obtain r e2 where sw: "save_wav (concat xs) (cid @ ''.wav'')
      (e\<lparr>writes := (cid @ ''.webm'', Raw (concat xs)) # writes e\<rparr>) = (r, e2)"
    by (cases "save_wav (concat xs) (cid @ ''.wav'')
      (e\<lparr>writes := (cid @ ''.webm'', Raw (concat xs)) # writes e\<rparr>)")
  have "r = None"
    using save_wav_returns [of "concat xs" "cid @ ''.wav''"
        "e\<lparr>writes := (cid @ ''.webm'', Raw (concat xs)) # writes e\<rparr>"] sw
    by simp
  with sw assms show ?thesis
    by (simp add: save_audio_def)
qed

lemma save_audio_absent:
  "clients_audios self cid = None \<Longrightarrow> save_audio self cid e = (None, self, e)"
  by (simp add: save_audio_def fun_upd_idem)

section \<open>Claims\<close>

text \<open>
  C1. From an empty accumulator for a client (after \<^verbatim>\<open>__init__\<close> or a drain the key
  is missing), any sequence of chunks appended with \<^verbatim>\<open>process_audio_frame\<close> is what
  the next \<^verbatim>\<open>save_audio\<close> pops, in arrival order; where the raw file can be opened,
  that drain writes their concatenation to it, once (and nothing when there was no
  chunk), and leaves no entry for the client; a second drain right after returns
  without a write and changes nothing.
\<close>

theorem drain_after_appends:
  assumes "clients_audios self client_id = None"
    and "open_error e (client_id @ ''.webm'') = None"
  shows "case process_audio_frames self chunks client_id e of
           (s1, e1) \<Rightarrow>
             clients_audios s1 client_id = (if chunks = [] then None else Some chunks) \<and>
             (case save_audio s1 client_id e1 of
                (r, s2, e2) \<Rightarrow>
                  r = None \<and>
                  writes_to e2 (client_id @ ''.webm'') =
                    (if chunks = [] then [] else [Raw (concat chunks)])
                      @ writes_to e (client_id @ ''.webm'') \<and>
                  clients_audios s2 client_id = None \<and>
                  save_audio s2 client_id e2 = (None, s2, e2))"
proof -
  obtain s1 e1 where p: "process_audio_frames self chunks client_id e = (s1, e1)"
    by (cases "process_audio_frames self chunks client_id e")
  have st: "clients_audios s1 client_id = (if chunks = [] then None else Some chunks)"
    using process_audio_frames_store [of self chunks client_id e] p assms(1) by simp
  have en: "writes e1 = writes e" "open_error e1 = open_error e"
    using process_audio_frames_env [of self chunks client_id e] p by simp_all
  obtain r s2 e2 where d: "save_audio s1 client_id e1 = (r, s2, e2)"
    by (cases "save_audio s1 client_id e1")
  have "r = None \<and>
        writes_to e2 (client_id @ ''.webm'') =
          (if chunks = [] then [] else [Raw (concat chunks)])
            @ writes_to e (client_id @ ''.webm'') \<and>
        clients_audios s2 client_id = None \<and>
        save_audio s2 client_id e2 = (None, s2, e2)"
  proof (cases "chunks = []")
    case True
    then have "clients_audios s1 client_id = None" using st by simp
    from save_audio_absent [OF this, of e1] d
    have "r = None" "s2 = s1" "e2 = e1" by simp_all
    then show ?thesis
      using True en \<open>clients_audios s1 client_id = None\<close> save_audio_absent [of s1 client_id e1]
      by (simp add: writes_to_def)
  next
    case False
    then have some: "clients_audios s1 client_id = Some chunks" using st by simp
    have op: "open_error e1 (client_id @ ''.webm'') = None" using en assms(2) by simp
    note sa = save_audio_nonempty [OF some False op]
    have r: "r = None" using sa d by simp
    have s2: "s2 = s1\<lparr>clients_audios := (clients_audios s1)(client_id := None)\<rparr>"
      using sa d by simp
    have w: "writes_to e2 (client_id @ ''.webm'') =
        writes_to (snd (save_wav (concat chunks) (client_id @ ''.wav'')
                    (e1\<lparr>writes := (client_id @ ''.webm'', Raw (concat chunks)) # writes e1\<rparr>)))
          (client_id @ ''.webm'')"
      using sa d by (simp add: writes_to_def)
    have w2: "writes_to e2 (client_id @ ''.webm'') =
        Raw (concat chunks) # writes_to e (client_id @ ''.webm'')"
      unfolding w using en
      by (simp add: save_wav_other_file) (simp add: writes_to_def)
    have absent: "clients_audios s2 client_id = None" using s2 by simp
    show ?thesis
      using r w2 absent save_audio_absent [OF absent, of e2] False by simp
  qed
  with p d st show ?thesis by simp
qed

theorem drain_after_appends_witness:
  "clients_audios init_service ''abc'' = None \<and>
   open_error fresh_env (''abc'' @ ''.webm'') = None \<and>
   (case process_audio_frames init_service [[0, 1], [2, 3]] ''abc'' fresh_env of
      (s1, e1) \<Rightarrow>
        clients_audios s1 ''abc'' = Some [[0, 1], [2, 3]] \<and>
        (case save_audio s1 ''abc'' e1 of
           (r, s2, e2) \<Rightarrow>
             r = None \<and> writes_to e2 ''abc.webm'' = [Raw [0, 1, 2, 3]] \<and>
             clients_audios s2 ''abc'' = None \<and>
             save_audio s2 ''abc'' e2 = (None, s2, e2)))"
  using drain_after_appends [of init_service "''abc''" fresh_env "[[0, 1], [2, 3]]"]
  by (simp add: init_service_def fresh_env_def writes_to_def)

text \<open>
  C6. \<^verbatim>\<open>no_voice_activity\<close> for a client whose accumulator has no entry, or an empty
  list, returns at once: nothing is raised, the service is the same and the outside
  world is the same, so no file was written. \<^verbatim>\<open>save_audio\<close> called in such a
  state leaves the outside world as it was, too.
\<close>

theorem finalize_of_nothing_is_noop:
  assumes "clients_audios self client_id = None \<or> clients_audios self client_id = Some []"
  shows "no_voice_activity self client_id e = (None, self, e) \<and>
         snd (snd (save_audio self client_id e)) = e"
  using assms by (auto simp: no_voice_activity_def save_audio_def)

theorem finalize_of_nothing_is_noop_witness:
  "(clients_audios init_service ''abc'' = None \<or> clients_audios init_service ''abc'' = Some [])
   \<and> no_voice_activity init_service ''abc'' fresh_env = (None, init_service, fresh_env)
   \<and> writes (snd (snd (no_voice_activity init_service ''abc'' fresh_env))) = []
   \<and> no_voice_activity \<lparr>clients_audios = [''abc'' \<mapsto> []]\<rparr> ''abc'' fresh_env
       = (None, \<lparr>clients_audios = [''abc'' \<mapsto> []]\<rparr>, fresh_env)"
  using finalize_of_nothing_is_noop [of init_service "''abc''" fresh_env]
    finalize_of_nothing_is_noop [of "\<lparr>clients_audios = [''abc'' \<mapsto> []]\<rparr>" "''abc''" fresh_env]
  by (simp add: init_service_def fresh_env_def)

lemma save_wav_written:
  assumes "open_error e filename = None"
    and "frombuffer (take (length data div 4 * 4) data) = Some ws"
  shows "save_wav data filename e =
           (None, e\<lparr>writes := (filename, Wave 1 4 16000
               (tobytes (map (\<lambda>w. astype_int32 (cast_invalid e) (mul_32767 (f32_of_word w))) ws)))
               # writes e\<rparr>)"
  using assms by (simp add: save_wav_def comp_def)

lemma save_wav_failed:
  assumes "open_error e filename = Some msg"
  shows "save_wav data filename e = (None, e\<lparr>logged := logged e @ [ErrorSavingAudio msg]\<rparr>)"
proof -
  obtain ws where "frombuffer (take (length data div 4 * 4) data) = Some ws"
    using frombuffer_truncated [of data] by blast
  with assms show ?thesis by (simp add: save_wav_def)
qed

lemma no_voice_activity_nonempty:
  "clients_audios self cid = Some xs \<Longrightarrow> xs \<noteq> [] \<Longrightarrow>
     no_voice_activity self cid e = save_audio self cid e"
  by (simp add: no_voice_activity_def)

lemma length_int32_bytes: "length (tobytes ws) = 4 * length ws"
  by (induction ws) (simp_all add: tobytes_def int32_bytes_def)

lemma concat_empty_chunks: "concat (replicate n []) = []"
  by (induction n) simp_all

text \<open>
  C5, as the code has it. A finalize of a non-empty buffer, where both files can be
  opened, first writes the joined chunks to the raw file as they are and then writes the
  wave file from the same bytes, which are not decoded under any container format but
  read as raw float32 samples: one channel, 16000 frames per second, samples of four
  bytes. The bytes are cut to the largest prefix whose length is a multiple of four,
  every group of four is read as a float32, multiplied by 32767 in float32 and converted
  to an int32, so the file has one sample for every four bytes of the buffer.
  \<^verbatim>\<open>convert_webm_to_wav\<close> is not called by \<^verbatim>\<open>save_audio\<close>.
\<close>

theorem reencode_as_pcm:
  assumes "clients_audios self client_id = Some xs" and "xs \<noteq> []"
    and "open_error e (client_id @ ''.webm'') = None"
    and "open_error e (client_id @ ''.wav'') = None"
  shows "\<exists>ws. frombuffer (take (length (concat xs) div 4 * 4) (concat xs)) = Some ws \<and>
           length ws = length (concat xs) div 4 \<and>
           fst (save_audio self client_id e) = None \<and>
           writes (snd (snd (save_audio self client_id e))) =
             (client_id @ ''.wav'',
              Wave 1 4 16000
                (tobytes (map (\<lambda>w. astype_int32 (cast_invalid e) (mul_32767 (f32_of_word w)))
                   ws)))
             # (client_id @ ''.webm'', Raw (concat xs)) # writes e \<and>
           length (tobytes (map (\<lambda>w. astype_int32 (cast_invalid e) (mul_32767 (f32_of_word w)))
                   ws)) = 4 * (length (concat xs) div 4) \<and>
           4 dvd length (take (length (concat xs) div 4 * 4) (concat xs)) \<and>
           (\<forall>n. n \<le> length (concat xs) \<and> 4 dvd n
                \<longrightarrow> n \<le> length (take (length (concat xs) div 4 * 4) (concat xs)))"
proof -
  obtain ws where ws: "frombuffer (take (length (concat xs) div 4 * 4) (concat xs)) = Some ws"
      "length ws = length (concat xs) div 4"
    using frombuffer_truncated [of "concat xs"] by blast
  have sw: "save_wav (concat xs) (client_id @ ''.wav'')
              (e\<lparr>writes := (client_id @ ''.webm'', Raw (concat xs)) # writes e\<rparr>) =
            (None, e\<lparr>writes := (client_id @ ''.wav'', Wave 1 4 16000
               (tobytes (map (\<lambda>w. astype_int32 (cast_invalid e) (mul_32767 (f32_of_word w))) ws)))
               # (client_id @ ''.webm'', Raw (concat xs)) # writes e\<rparr>)"
    using save_wav_written [of "e\<lparr>writes := (client_id @ ''.webm'', Raw (concat xs)) # writes e\<rparr>"
        "client_id @ ''.wav''" "concat xs" ws] assms(4) ws(1)
    by simp
  have sa: "fst (save_audio self client_id e) = None \<and>
           writes (snd (snd (save_audio self client_id e))) =
             (client_id @ ''.wav'',
              Wave 1 4 16000
                (tobytes (map (\<lambda>w. astype_int32 (cast_invalid e) (mul_32767 (f32_of_word w)))
                   ws)))
             # (client_id @ ''.webm'', Raw (concat xs)) # writes e"
    using save_audio_nonempty [OF assms(1) assms(2) assms(3)] sw by simp
  have len: "length (take (length (concat xs) div 4 * 4) (concat xs))
      = length (concat xs) div 4 * 4"
    by simp
  have largest: "\<forall>n. n \<le> length (concat xs) \<and> 4 dvd n
                \<longrightarrow> n \<le> length (take (length (concat xs) div 4 * 4) (concat xs))"
    unfolding len by (auto simp: dvd_def)
  have "4 dvd length (take (length (concat xs) div 4 * 4) (concat xs))"
    unfolding len by simp
  with ws sa largest show ?thesis
    by (simp add: length_int32_bytes)
qed

theorem reencode_as_pcm_witness:
  "writes (snd (snd (save_audio
      \<lparr>clients_audios = [''abc'' \<mapsto> [[0, 0, 0x80], [0x3F, 0, 0, 0, 0x3F, 7]]]\<rparr>
      ''abc'' fresh_env))) =
     [(''abc.wav'', Wave 1 4 16000 [255, 127, 0, 0, 255, 63, 0, 0]),
      (''abc.webm'', Raw [0, 0, 0x80, 0x3F, 0, 0, 0, 0x3F, 7])]"
  using reencode_as_pcm
    [of "\<lparr>clients_audios = [''abc'' \<mapsto> [[0, 0, 0x80], [0x3F, 0, 0, 0, 0x3F, 7]]]\<rparr>"
        "''abc''" "[[0, 0, 0x80], [0x3F, 0, 0, 0, 0x3F, 7]]" fresh_env]
  by (simp add: fresh_env_def tobytes_def int32_bytes_def f32_of_word_def f32_round_def
        excess_bits.simps)

text \<open>
  C5 as stated, that the buffer is decoded under its container format, fails: the four
  bytes \<open>1A 45 DF A3\<close> with which a WebM stream begins are the container's magic
  number and carry no audio, yet \<^verbatim>\<open>save_audio\<close> reads them as the float32 with the
  bit pattern \<open>A3DF451A\<close> and writes a wave file of one sample for them. Nothing in
  \<^verbatim>\<open>save_audio\<close> looks at the structure of the container.
\<close>

theorem container_is_not_decoded_counterexample:
  "frombuffer [0x1A, 0x45, 0xDF, 0xA3] = Some [0xA3DF451A] \<and>
   writes (snd (snd (save_audio
      \<lparr>clients_audios = [''abc'' \<mapsto> [[0x1A, 0x45, 0xDF, 0xA3]]]\<rparr>
      ''abc'' fresh_env))) =
     [(''abc.wav'', Wave 1 4 16000 [0, 0, 0, 0]),
      (''abc.webm'', Raw [0x1A, 0x45, 0xDF, 0xA3])]"
  by (simp add: save_audio_def save_wav_def fresh_env_def tobytes_def int32_bytes_def
        f32_of_word_def f32_round_def excess_bits.simps Let_def)

text \<open>
  C7. \<^verbatim>\<open>save_wav\<close> never raises: reading the samples cannot fail on the truncated
  buffer, and what fails inside its \<^verbatim>\<open>try\<close> is caught. When, in a finalize of a
  non-empty buffer, the raw file is written and the wave file then cannot be opened,
  \<^verbatim>\<open>save_audio\<close> returns normally, the raw write stands as the newest write, and the
  error is in the log; a timeout that triggers this finalize continues the handler's
  loop.
\<close>

theorem reencode_failure_is_contained:
  assumes "instance_of w = Some self" and "outside w = e"
    and "clients_audios self client_id = Some xs" and "xs \<noteq> []"
    and "open_error e (client_id @ ''.webm'') = None"
    and "open_error e (client_id @ ''.wav'') = Some msg"
  shows "fst (save_wav data filename e') = None \<and>
         save_audio self client_id e =
           (None, self\<lparr>clients_audios := (clients_audios self)(client_id := None)\<rparr>,
            e\<lparr>writes := (client_id @ ''.webm'', Raw (concat xs)) # writes e,
              logged := logged e @ [ErrorSavingAudio msg,
                                    SavedAudio client_id (client_id @ ''.webm'')]\<rparr>) \<and>
         loop_body w client_id Timeout =
           Continue (w\<lparr>instance_of :=
                         Some (self\<lparr>clients_audios := (clients_audios self)(client_id := None)\<rparr>),
                       outside :=
                         e\<lparr>writes := (client_id @ ''.webm'', Raw (concat xs)) # writes e,
                           logged := logged e @ [ErrorSavingAudio msg,
                                    SavedAudio client_id (client_id @ ''.webm'')]\<rparr>\<rparr>)"
proof -
  have sw: "save_wav (concat xs) (client_id @ ''.wav'')
              (e\<lparr>writes := (client_id @ ''.webm'', Raw (concat xs)) # writes e\<rparr>) =
            (None, e\<lparr>writes := (client_id @ ''.webm'', Raw (concat xs)) # writes e,
                     logged := logged e @ [ErrorSavingAudio msg]\<rparr>)"
    using save_wav_failed [of "e\<lparr>writes := (client_id @ ''.webm'', Raw (concat xs)) # writes e\<rparr>"
        "client_id @ ''.wav''" msg "concat xs"] assms(6)
    by simp
  have sa: "save_audio self client_id e =
           (None, self\<lparr>clients_audios := (clients_audios self)(client_id := None)\<rparr>,
            e\<lparr>writes := (client_id @ ''.webm'', Raw (concat xs)) # writes e,
              logged := logged e @ [ErrorSavingAudio msg,
                                    SavedAudio client_id (client_id @ ''.webm'')]\<rparr>)"
    using save_audio_nonempty [OF assms(3) assms(4) assms(5)] sw by simp
  have nva: "no_voice_activity self client_id e = save_audio self client_id e"
    using no_voice_activity_nonempty [OF assms(3) assms(4)] .
  have "loop_body w client_id Timeout =
           Continue (w\<lparr>instance_of :=
                         Some (self\<lparr>clients_audios := (clients_audios self)(client_id := None)\<rparr>),
                       outside :=
                         e\<lparr>writes := (client_id @ ''.webm'', Raw (concat xs)) # writes e,
                           logged := logged e @ [ErrorSavingAudio msg,
                                    SavedAudio client_id (client_id @ ''.webm'')]\<rparr>\<rparr>)"
    using assms(1) assms(2) nva sa
    by (simp add: call_no_voice_activity_def VoiceReceiverService_def)
  with sa save_wav_returns [of data filename e'] show ?thesis by simp
qed

theorem reencode_failure_is_contained_witness:
  "save_audio \<lparr>clients_audios = [''abc'' \<mapsto> [[0, 1], [2, 3]]]\<rparr> ''abc''
       (failing_env [''abc.wav'']) =
     (None, \<lparr>clients_audios = [''abc'' \<mapsto> [[0, 1], [2, 3]]](''abc'' := None)\<rparr>,
      \<lparr>writes = [(''abc.webm'', Raw [0, 1, 2, 3])],
       logged = [ErrorSavingAudio ''Permission denied'', SavedAudio ''abc'' ''abc.webm''],
       open_error = open_error (failing_env [''abc.wav'']),
       cast_invalid = cast_invalid (failing_env [''abc.wav''])\<rparr>) \<and>
   is_Continue (loop_body
      \<lparr>connected_clients = [''abc'' \<mapsto> 1],
       instance_of = Some \<lparr>clients_audios = [''abc'' \<mapsto> [[0, 1], [2, 3]]]\<rparr>,
       outside = failing_env [''abc.wav'']\<rparr> ''abc'' Timeout)"
  using reencode_failure_is_contained
    [of "\<lparr>connected_clients = [''abc'' \<mapsto> 1],
          instance_of = Some \<lparr>clients_audios = [''abc'' \<mapsto> [[0, 1], [2, 3]]]\<rparr>,
          outside = failing_env [''abc.wav'']\<rparr>"
        "\<lparr>clients_audios = [''abc'' \<mapsto> [[0, 1], [2, 3]]]\<rparr>"
        "failing_env [''abc.wav'']" "''abc''" "[[0, 1], [2, 3]]" "''Permission denied''"
        "[]" "''x''" fresh_env]
  by (simp add: failing_env_def)

text \<open>
  C10. \<^verbatim>\<open>process_audio_frame\<close> stores a chunk of length zero like any other. An
  accumulator that holds one or more chunks, all of length zero, is a non-empty list:
  \<^verbatim>\<open>no_voice_activity\<close> runs the finalize, which (both files being openable) writes a
  raw file of no bytes and then a wave file of no samples, and removes the entry.
\<close>

theorem zero_length_chunks_are_finalized:
  assumes "clients_audios self client_id = None"
    and "open_error e (client_id @ ''.webm'') = None"
    and "open_error e (client_id @ ''.wav'') = None"
  shows "case process_audio_frames self (replicate (Suc n) []) client_id e of
           (s1, e1) \<Rightarrow>
             clients_audios s1 client_id = Some (replicate (Suc n) []) \<and>
             (case no_voice_activity s1 client_id e1 of
                (r, s2, e2) \<Rightarrow>
                  r = None \<and>
                  writes e2 = (client_id @ ''.wav'', Wave 1 4 16000 [])
                              # (client_id @ ''.webm'', Raw []) # writes e \<and>
                  clients_audios s2 client_id = None)"
proof -
  let ?cs = "replicate (Suc n) ([] :: bytes)"
  obtain s1 e1 where p: "process_audio_frames self ?cs client_id e = (s1, e1)"
    by (cases "process_audio_frames self ?cs client_id e")
  have st: "clients_audios s1 client_id = Some ?cs"
    using process_audio_frames_store [of self ?cs client_id e] p assms(1) by simp
  have en: "writes e1 = writes e" "open_error e1 = open_error e"
    using process_audio_frames_env [of self ?cs client_id e] p by simp_all
  have ne: "?cs \<noteq> []" by simp
  have cc: "concat ?cs = []" by (rule concat_empty_chunks)
  have sw: "save_wav [] (client_id @ ''.wav'')
              (e1\<lparr>writes := (client_id @ ''.webm'', Raw []) # writes e1\<rparr>) =
            (None, e1\<lparr>writes := (client_id @ ''.wav'', Wave 1 4 16000 [])
               # (client_id @ ''.webm'', Raw []) # writes e1\<rparr>)"
    using save_wav_written [of "e1\<lparr>writes := (client_id @ ''.webm'', Raw []) # writes e1\<rparr>"
        "client_id @ ''.wav''" "[]" "[]"] assms(3) en
    by (simp add: tobytes_def)
  have op: "open_error e1 (client_id @ ''.webm'') = None" using en assms(2) by simp
  have sa: "save_audio s1 client_id e1 =
      (None, s1\<lparr>clients_audios := (clients_audios s1)(client_id := None)\<rparr>,
       e1\<lparr>writes := (client_id @ ''.wav'', Wave 1 4 16000 [])
               # (client_id @ ''.webm'', Raw []) # writes e1,
          logged := logged e1 @ [SavedAudio client_id (client_id @ ''.webm'')]\<rparr>)"
    using save_audio_nonempty [OF st ne op] sw unfolding cc by simp
  have "no_voice_activity s1 client_id e1 = save_audio s1 client_id e1"
    using no_voice_activity_nonempty [OF st ne] .
  with sa p st en show ?thesis by simp
qed

theorem zero_length_chunks_are_finalized_witness:
  "case process_audio_frames init_service [[], []] ''abc'' fresh_env of
     (s1, e1) \<Rightarrow>
       clients_audios s1 ''abc'' = Some [[], []] \<and>
       (case no_voice_activity s1 ''abc'' e1 of
          (r, s2, e2) \<Rightarrow>
            r = None \<and>
            writes e2 = [(''abc.wav'', Wave 1 4 16000 []), (''abc.webm'', Raw [])] \<and>
            clients_audios s2 ''abc'' = None)"
  using zero_length_chunks_are_finalized [of init_service "''abc''" fresh_env 1]
  by (simp add: init_service_def fresh_env_def)

section \<open>Properties of the handler\<close>

lemma save_wav_open_error:
  "save_wav data filename e = (r, e2) \<Longrightarrow> open_error e2 = open_error e"
  using save_wav_oracles [of data filename e] by simp

lemma save_audio_open_error:
  "open_error (snd (snd (save_audio self cid e))) = open_error e"
  by (auto simp: save_audio_def Let_def split: option.splits prod.splits
        dest: save_wav_open_error)

lemma no_voice_activity_open_error:
  "open_error (snd (snd (no_voice_activity self cid e))) = open_error e"
  by (simp add: no_voice_activity_def save_audio_open_error split: option.splits)

lemma no_voice_activity_returns:
  assumes "open_error e (cid @ ''.webm'') = None"
  shows "fst (no_voice_activity self cid e) = None"
proof (cases "clients_audios self cid")
  case None
  then show ?thesis by (simp add: no_voice_activity_def)
next
  case (Some xs)
  show ?thesis
  proof (cases "xs = []")
    case True
    with Some show ?thesis by (simp add: no_voice_activity_def)
  next
    case False
    from save_audio_nonempty [OF Some False assms] Some False show ?thesis
      by (simp add: no_voice_activity_def)
  qed
qed

lemma call_no_voice_activity_frame:
  "connected_clients (snd (call_no_voice_activity w cid)) = connected_clients w \<and>
   open_error (outside (snd (call_no_voice_activity w cid))) = open_error (outside w)"
proof -
  obtain self w1 where v: "VoiceReceiverService w = (self, w1)"
    by (cases "VoiceReceiverService w")
  then have w1: "connected_clients w1 = connected_clients w" "outside w1 = outside w"
    by (auto simp: VoiceReceiverService_def split: option.splits)
  obtain r s' e' where n: "no_voice_activity self cid (outside w1) = (r, s', e')"
    by (cases "no_voice_activity self cid (outside w1)")
  have "open_error e' = open_error (outside w1)"
    using no_voice_activity_open_error [of self cid "outside w1"] n by simp
  with v n w1 show ?thesis
    by (simp add: call_no_voice_activity_def)
qed

lemma call_no_voice_activity_returns:
  assumes "open_error (outside w) (cid @ ''.webm'') = None"
  shows "fst (call_no_voice_activity w cid) = None"
proof -
  obtain self w1 where v: "VoiceReceiverService w = (self, w1)"
    by (cases "VoiceReceiverService w")
  then have w1: "outside w1 = outside w"
    by (auto simp: VoiceReceiverService_def split: option.splits)
  obtain r s' e' where n: "no_voice_activity self cid (outside w1) = (r, s', e')"
    by (cases "no_voice_activity self cid (outside w1)")
  have "r = None"
    using no_voice_activity_returns [of "outside w1" cid self] n w1 assms by simp
  with v n show ?thesis
    by (simp add: call_no_voice_activity_def)
qed

lemma call_process_audio_frame_frame:
  "connected_clients (call_process_audio_frame w data cid) = connected_clients w \<and>
   open_error (outside (call_process_audio_frame w data cid)) = open_error (outside w) \<and>
   writes (outside (call_process_audio_frame w data cid)) = writes (outside w)"
  by (simp add: call_process_audio_frame_def VoiceReceiverService_def
        process_audio_frame_def Let_def split: option.splits)

text \<open>The world a pass through the loop body ends in.\<close>

lemma loop_body_frame:
  "loop_body w cid ev = Continue w' \<or> loop_body w cid ev = Break w'
     \<or> loop_body w cid ev = Raise x w' \<Longrightarrow>
   connected_clients w' = connected_clients w \<and>
   open_error (outside w') = open_error (outside w)"
proof (induction w cid ev rule: loop_body.induct)
  case (1 w cid)
  obtain r w2 where c: "call_no_voice_activity w cid = (r, w2)"
    by (cases "call_no_voice_activity w cid")
  with call_no_voice_activity_frame [of w cid] "1.prems" show ?case
    by (auto split: option.splits)
next
  case (2 w cid x)
  then show ?case by auto
next
  case (3 w cid data t)
  with call_process_audio_frame_frame [of w data cid] show ?case by auto
next
  case (4 w cid data)
  obtain r w2 where c: "call_no_voice_activity w cid = (r, w2)"
    by (cases "call_no_voice_activity w cid")
  with call_no_voice_activity_frame [of w cid] "4.prems" show ?case
    by (auto split: option.splits if_splits)
next
  case (5 w cid)
  then show ?case by auto
next
  case (6 w cid)
  then show ?case by auto
qed

lemma run_loop_frame:
  "run_loop w cid evs = Receiving w' \<or> run_loop w cid evs = Broke w'
     \<or> run_loop w cid evs = Raised x w' \<Longrightarrow>
   connected_clients w' = connected_clients w \<and>
   open_error (outside w') = open_error (outside w)"
proof (induction evs arbitrary: w)
  case Nil
  then show ?case by auto
next
  case (Cons ev evs)
  show ?case
  proof (cases "loop_body w cid ev")
    case (Continue w1)
    with Cons.prems have "run_loop w1 cid evs = Receiving w' \<or> run_loop w1 cid evs = Broke w'
       \<or> run_loop w1 cid evs = Raised x w'"
      by simp
    from Cons.IH [OF this] loop_body_frame [of w cid ev w1 x] Continue show ?thesis
      by simp
  next
    case (Break w1)
    with Cons.prems loop_body_frame [of w cid ev w1 x] show ?thesis by auto
  next
    case (Raise y w1)
    with Cons.prems loop_body_frame [of w cid ev w1 y] show ?thesis by auto
  qed
qed

lemma run_loop_append:
  "run_loop w cid (evs @ evs') =
     (case run_loop w cid evs of
        Receiving w' \<Rightarrow> run_loop w' cid evs'
      | Broke w' \<Rightarrow> Broke w'
      | Raised x w' \<Rightarrow> Raised x w')"
  by (induction evs arbitrary: w) (simp_all split: step.splits)

text \<open>The \<^verbatim>\<open>finally\<close> clause removes the client from both dictionaries.\<close>

lemma finally_block_clean:
  "connected_clients (finally_block w cid) cid = None \<and>
   pending (finally_block w cid) cid = None \<and>
   outside (finally_block w cid) = outside w"
  by (simp add: finally_block_def call_pop_clients_audios_def VoiceReceiverService_def
        pop_clients_audios_def pending_def init_service_def Let_def split: option.splits)

lemma except_block_frame:
  "connected_clients (except_block w cid x) = connected_clients w \<and>
   instance_of (except_block w cid x) = instance_of w \<and>
   writes (outside (except_block w cid x)) = writes (outside w)"
  by (simp add: except_block_def)

text \<open>The handler is open exactly while the loop is receiving.\<close>

lemma get_audio_alt:
  "get_audio w ws cid evs =
     (case run_loop (entered w ws cid) cid evs of
        Receiving w' \<Rightarrow> Open w'
      | Broke w' \<Rightarrow> Closed None (finally_block w' cid)
      | Raised x w' \<Rightarrow>
          if is_Exception x
          then Closed None (finally_block (except_block w' cid x) cid)
          else Closed (Some x) (finally_block w' cid))"
  by (simp add: get_audio_def entered_def Let_def)

lemma get_audio_Open:
  "is_Open (get_audio w ws cid evs) \<Longrightarrow>
     run_loop (entered w ws cid) cid evs = Receiving (world_of (get_audio w ws cid evs))"
  by (simp add: get_audio_alt split: loop_result.splits if_splits)

section \<open>Claims about the handler\<close>

text \<open>
  C2. Whatever events the connection delivers, the handler is either still open, with
  the client registered under its websocket, or over, and then the world it leaves is
  the \<^verbatim>\<open>finally\<close> clause applied to the world the loop was left in: the client is in
  neither \<^verbatim>\<open>connected_clients\<close> nor the shared instance's \<^verbatim>\<open>clients_audios\<close>.
  And each way out of an open connection does end the handler: the close token (also
  when the finalize it triggers raises), a message with neither key, a message that is
  no dictionary, and an exception of \<^verbatim>\<open>receive\<close>.
\<close>

theorem cleanup_on_every_exit:
  assumes "is_Open (get_audio w websocket client_id evs)"
    and "ev = Message (Dict None (Some ''close()'')) \<or> ev = Message (Dict None None)
         \<or> ev = Message NotDict \<or> ev = Raises x"
  shows "\<not> is_Open (get_audio w websocket client_id (evs @ ev # rest)) \<and>
         (case get_audio w websocket client_id evs' of
            Open w' \<Rightarrow> connected_clients w' client_id = Some websocket
          | Closed r w' \<Rightarrow>
              connected_clients w' client_id = None \<and> pending w' client_id = None \<and>
              (\<exists>w''. w' = finally_block w'' client_id))"
proof -
  let ?w0 = "entered w websocket client_id"
  let ?w1 = "world_of (get_audio w websocket client_id evs)"
  have r: "run_loop ?w0 client_id evs = Receiving ?w1"
    using get_audio_Open [OF assms(1)] .
  have "\<not> is_Continue (loop_body ?w1 client_id ev)"
    using assms(2) by (auto split: prod.splits option.splits)
  then have "run_loop ?w1 client_id (ev # rest) \<noteq> Receiving w'" for w'
    by (cases "loop_body ?w1 client_id ev") simp_all
  then have "run_loop ?w0 client_id (evs @ ev # rest) \<noteq> Receiving w'" for w'
    using r by (simp add: run_loop_append)
  then have closed: "\<not> is_Open (get_audio w websocket client_id (evs @ ev # rest))"
    by (simp add: get_audio_alt split: loop_result.splits)
  have "case get_audio w websocket client_id evs' of
            Open w' \<Rightarrow> connected_clients w' client_id = Some websocket
          | Closed r w' \<Rightarrow>
              connected_clients w' client_id = None \<and> pending w' client_id = None \<and>
              (\<exists>w''. w' = finally_block w'' client_id)"
  proof (cases "run_loop ?w0 client_id evs'")
    case (Receiving w')
    from run_loop_frame [of ?w0 client_id evs' w'] Receiving
    have "connected_clients w' = connected_clients ?w0" by simp
    with Receiving show ?thesis
      by (simp add: get_audio_alt entered_def)
  next
    case (Broke w')
    with finally_block_clean [of w' client_id] show ?thesis
      by (auto simp: get_audio_alt)
  next
    case (Raised y w')
    with finally_block_clean [of w' client_id]
      finally_block_clean [of "except_block w' client_id y" client_id]
    show ?thesis
      by (auto simp: get_audio_alt)
  qed
  with closed show ?thesis by simp
qed

theorem cleanup_on_every_exit_witness:
  "is_Open (get_audio (start_world (failing_env [''abc.webm''])) 7 ''abc''
      [Message (Dict (Some [0, 1]) None)]) \<and>
   \<not> is_Open (get_audio (start_world (failing_env [''abc.webm''])) 7 ''abc''
      ([Message (Dict (Some [0, 1]) None)] @ Message (Dict None (Some ''close()'')) # [])) \<and>
   connected_clients (world_of (get_audio (start_world (failing_env [''abc.webm''])) 7 ''abc''
      [Message (Dict (Some [0, 1]) None), Message (Dict None (Some ''close()''))])) ''abc''
     = None \<and>
   pending (world_of (get_audio (start_world (failing_env [''abc.webm''])) 7 ''abc''
      [Message (Dict (Some [0, 1]) None), Message (Dict None (Some ''close()''))])) ''abc''
     = None \<and>
   writes (outside (world_of (get_audio (start_world (failing_env [''abc.webm''])) 7 ''abc''
      [Message (Dict (Some [0, 1]) None), Message (Dict None (Some ''close()''))]))) = []"
  using cleanup_on_every_exit
    [of "start_world (failing_env [''abc.webm''])" 7 "''abc''"
        "[Message (Dict (Some [0, 1]) None)]" "Message (Dict None (Some ''close()''))"
        "BaseException ''''" "[]"
        "[Message (Dict (Some [0, 1]) None), Message (Dict None (Some ''close()''))]"]
  by (simp add: get_audio_def start_world_def failing_env_def call_process_audio_frame_def
        call_no_voice_activity_def VoiceReceiverService_def process_audio_frame_def
        no_voice_activity_def save_audio_def init_service_def finally_block_def
        except_block_def call_pop_clients_audios_def pop_clients_audios_def pending_def)

text \<open>
  C4, as the code has it. A message with neither the key \<^verbatim>\<open>"bytes"\<close> nor the key
  \<^verbatim>\<open>"text"\<close> (or one that is no dictionary) ends an open connection without a
  finalize: the handler returns after the \<^verbatim>\<open>finally\<close> clause, and the outside world
  is as the loop left it. A text other than \<^verbatim>\<open>close()\<close> does not end anything: the
  message is skipped, and the handler goes on as if it had not been sent.
\<close>

theorem unknown_shape_closes_other_text_is_skipped:
  assumes "is_Open (get_audio w websocket client_id evs)"
    and "ev = Message (Dict None None) \<or> ev = Message NotDict"
    and "t \<noteq> ''close()''"
  shows "get_audio w websocket client_id (evs @ ev # rest) =
           Closed None (finally_block (world_of (get_audio w websocket client_id evs)) client_id) \<and>
         outside (finally_block (world_of (get_audio w websocket client_id evs)) client_id) =
           outside (world_of (get_audio w websocket client_id evs)) \<and>
         get_audio w websocket client_id (evs' @ Message (Dict None (Some t)) # rest) =
           get_audio w websocket client_id (evs' @ rest)"
proof -
  let ?w0 = "entered w websocket client_id"
  let ?w1 = "world_of (get_audio w websocket client_id evs)"
  have r: "run_loop ?w0 client_id evs = Receiving ?w1"
    using get_audio_Open [OF assms(1)] .
  have "loop_body ?w1 client_id ev = Break ?w1"
    using assms(2) by auto
  then have "run_loop ?w0 client_id (evs @ ev # rest) = Broke ?w1"
    using r by (simp add: run_loop_append)
  then have a: "get_audio w websocket client_id (evs @ ev # rest) =
           Closed None (finally_block ?w1 client_id)"
    by (simp add: get_audio_alt)
  have "run_loop w2 client_id (Message (Dict None (Some t)) # rest) = run_loop w2 client_id rest"
    for w2
    using assms(3) by simp
  then have "run_loop ?w0 client_id (evs' @ Message (Dict None (Some t)) # rest) =
      run_loop ?w0 client_id (evs' @ rest)"
    by (simp add: run_loop_append split: loop_result.splits)
  then have b: "get_audio w websocket client_id (evs' @ Message (Dict None (Some t)) # rest) =
           get_audio w websocket client_id (evs' @ rest)"
    by (simp add: get_audio_alt)
  from a b finally_block_clean [of ?w1 client_id] show ?thesis by simp
qed

theorem unknown_shape_closes_other_text_is_skipped_witness:
  "is_Open (get_audio (start_world fresh_env) 7 ''abc'' [Message (Dict (Some [0, 1]) None)]) \<and>
   ''hello'' \<noteq> ''close()'' \<and>
   \<not> is_Open (get_audio (start_world fresh_env) 7 ''abc''
      [Message (Dict (Some [0, 1]) None), Message (Dict None None)]) \<and>
   writes (outside (world_of (get_audio (start_world fresh_env) 7 ''abc''
      [Message (Dict (Some [0, 1]) None), Message (Dict None None)]))) = [] \<and>
   get_audio (start_world fresh_env) 7 ''abc''
      [Message (Dict (Some [0, 1]) None), Message (Dict None (Some ''hello''))] =
   get_audio (start_world fresh_env) 7 ''abc'' [Message (Dict (Some [0, 1]) None)]"
  using unknown_shape_closes_other_text_is_skipped
    [of "start_world fresh_env" 7 "''abc''" "[Message (Dict (Some [0, 1]) None)]"
        "Message (Dict None None)" "''hello''" "[]" "[Message (Dict (Some [0, 1]) None)]"]
  by (simp add: get_audio_def start_world_def fresh_env_def call_process_audio_frame_def
        VoiceReceiverService_def process_audio_frame_def init_service_def finally_block_def
        call_pop_clients_audios_def pop_clients_audios_def)

text \<open>
  C4 as stated, that every text other than the close token ends the loop, fails: after
  the text \<^verbatim>\<open>hello\<close> the handler is still open and the client still registered.
\<close>

theorem other_text_does_not_close_counterexample:
  "''hello'' \<noteq> ''close()'' \<and>
   is_Open (get_audio (start_world fresh_env) 7 ''abc'' [Message (Dict None (Some ''hello''))]) \<and>
   connected_clients (world_of (get_audio (start_world fresh_env) 7 ''abc''
      [Message (Dict None (Some ''hello''))])) ''abc'' = Some 7"
  by (simp add: get_audio_def start_world_def)

text \<open>
  C8, as the code has it. On a timeout the handler calls \<^verbatim>\<open>no_voice_activity\<close> for
  the client, and where the raw file of the client can be opened that call returns and
  the loop goes on: after any number of consecutive timeouts an open connection is
  still open, with the client registered under its websocket. (Where the raw file
  cannot be opened the exception of the finalize leaves the loop; the counterexample
  below.)
\<close>

theorem timeout_keeps_connection_open:
  assumes "is_Open (get_audio w websocket client_id evs)"
    and "open_error (outside w) (client_id @ ''.webm'') = None"
    and "open_error (outside w2) (client_id @ ''.webm'') = None"
  shows "loop_body w2 client_id Timeout = Continue (snd (call_no_voice_activity w2 client_id)) \<and>
         is_Open (get_audio w websocket client_id (evs @ replicate n Timeout)) \<and>
         connected_clients
           (world_of (get_audio w websocket client_id (evs @ replicate n Timeout))) client_id
           = Some websocket"
proof -
  let ?w0 = "entered w websocket client_id"
  let ?w1 = "world_of (get_audio w websocket client_id evs)"
  have step: "loop_body v client_id Timeout = Continue (snd (call_no_voice_activity v client_id))"
    if "open_error (outside v) (client_id @ ''.webm'') = None" for v
    using call_no_voice_activity_returns [OF that]
    by (cases "call_no_voice_activity v client_id") simp
  have many: "\<exists>v'. run_loop v client_id (replicate n Timeout) = Receiving v'"
    if "open_error (outside v) (client_id @ ''.webm'') = None" for v
    using that
  proof (induction n arbitrary: v)
    case 0
    show ?case by simp
  next
    case (Suc n)
    let ?v1 = "snd (call_no_voice_activity v client_id)"
    have "open_error (outside ?v1) = open_error (outside v)"
      using call_no_voice_activity_frame [of v client_id] by simp
    then have "open_error (outside ?v1) (client_id @ ''.webm'') = None"
      using Suc.prems by simp
    from Suc.IH [OF this] step [OF Suc.prems] show ?case by simp
  qed
  have r: "run_loop ?w0 client_id evs = Receiving ?w1"
    using get_audio_Open [OF assms(1)] .
  have "open_error (outside ?w0) = open_error (outside w)"
    by (simp add: entered_def)
  with run_loop_frame [of ?w0 client_id evs ?w1] r assms(2)
  have "open_error (outside ?w1) (client_id @ ''.webm'') = None" by simp
  from many [OF this] obtain v' where
    v': "run_loop ?w1 client_id (replicate n Timeout) = Receiving v'" by blast
  then have all: "run_loop ?w0 client_id (evs @ replicate n Timeout) = Receiving v'"
    using r by (simp add: run_loop_append)
  have "connected_clients v' = connected_clients ?w0"
    using run_loop_frame [of ?w0 client_id "evs @ replicate n Timeout" v'] all by simp
  then have "connected_clients v' client_id = Some websocket"
    by (simp add: entered_def)
  with all step [OF assms(3)] show ?thesis
    by (simp add: get_audio_alt)
qed

theorem timeout_keeps_connection_open_witness:
  "is_Open (get_audio (start_world fresh_env) 7 ''abc'' [Message (Dict (Some [0, 1]) None)]) \<and>
   is_Open (get_audio (start_world fresh_env) 7 ''abc''
      [Message (Dict (Some [0, 1]) None), Timeout, Timeout, Timeout]) \<and>
   connected_clients (world_of (get_audio (start_world fresh_env) 7 ''abc''
      [Message (Dict (Some [0, 1]) None), Timeout, Timeout, Timeout])) ''abc'' = Some 7 \<and>
   is_Continue (loop_body (start_world fresh_env) ''abc'' Timeout)"
  using timeout_keeps_connection_open
    [of "start_world fresh_env" 7 "''abc''" "[Message (Dict (Some [0, 1]) None)]"
        "start_world fresh_env" 3]
  by (simp add: get_audio_def start_world_def fresh_env_def numeral_3_eq_3
        call_process_audio_frame_def VoiceReceiverService_def process_audio_frame_def
        init_service_def)

text \<open>
  C8 as stated, that the timeout branch never closes the connection, fails where the
  raw file cannot be opened: the client sends one chunk, the timeout fires, opening
  \<^verbatim>\<open>abc.webm\<close> raises, and the handler is over, the client no longer registered and
  nothing written.
\<close>

theorem timeout_can_close_counterexample:
  "\<not> is_Open (get_audio (start_world (failing_env [''abc.webm''])) 7 ''abc''
      [Message (Dict (Some [0, 1]) None), Timeout]) \<and>
   connected_clients (world_of (get_audio (start_world (failing_env [''abc.webm''])) 7 ''abc''
      [Message (Dict (Some [0, 1]) None), Timeout])) ''abc'' = None \<and>
   writes (outside (world_of (get_audio (start_world (failing_env [''abc.webm''])) 7 ''abc''
      [Message (Dict (Some [0, 1]) None), Timeout]))) = []"
  by (simp add: get_audio_def start_world_def failing_env_def call_process_audio_frame_def
        call_no_voice_activity_def VoiceReceiverService_def process_audio_frame_def
        no_voice_activity_def save_audio_def init_service_def finally_block_def
        except_block_def call_pop_clients_audios_def pop_clients_audios_def)

text \<open>
  C9. The close token is handled like a timeout that leaves the loop: the handler runs
  the same \<^verbatim>\<open>no_voice_activity\<close> call on the same state, so the files written are
  those a timeout at that moment would have written, and then the loop is over,
  whatever would have come next: no further event, and so no timeout, is waited for.
\<close>

theorem close_token_finalizes_like_timeout:
  "run_loop w client_id (Message (Dict None (Some ''close()'')) # rest) =
     (case loop_body w client_id Timeout of
        Continue w' \<Rightarrow> Broke w'
      | Break w' \<Rightarrow> Broke w'
      | Raise x w' \<Rightarrow> Raised x w') \<and>
   \<not> is_Open (get_audio w websocket client_id
      (map (\<lambda>data. Message (Dict (Some data) None)) chunks
        @ Message (Dict None (Some ''close()'')) # rest)) \<and>
   writes (outside (world_of (get_audio w websocket client_id
      (map (\<lambda>data. Message (Dict (Some data) None)) chunks
        @ Message (Dict None (Some ''close()'')) # rest)))) =
   writes (outside (world_of (get_audio w websocket client_id
      (map (\<lambda>data. Message (Dict (Some data) None)) chunks @ [Timeout]))))"
proof -
  let ?w0 = "entered w websocket client_id"
  let ?evs = "map (\<lambda>data. Message (Dict (Some data) None)) chunks"
  let ?close = "Message (Dict None (Some ''close()''))"
  have one: "run_loop v client_id (?close # rest) =
     (case loop_body v client_id Timeout of
        Continue w' \<Rightarrow> Broke w'
      | Break w' \<Rightarrow> Broke w'
      | Raise x w' \<Rightarrow> Raised x w')" for v
    by (cases "call_no_voice_activity v client_id") (simp split: option.splits)
  have tm: "run_loop v client_id [Timeout] =
     (case loop_body v client_id Timeout of
        Continue w' \<Rightarrow> Receiving w'
      | Break w' \<Rightarrow> Broke w'
      | Raise x w' \<Rightarrow> Raised x w')" for v
    by (cases "call_no_voice_activity v client_id") (simp split: option.splits)
  have nb: "loop_body v client_id Timeout \<noteq> Break w'" for v w'
    by (cases "call_no_voice_activity v client_id") (simp split: option.splits)
  have wr: "writes (outside (finally_block v client_id)) = writes (outside v)" for v
    using finally_block_clean [of v client_id] by simp
  have ex: "writes (outside (finally_block (except_block v client_id x) client_id))
      = writes (outside v)" for v x
    using finally_block_clean [of "except_block v client_id x" client_id]
      except_block_frame [of v client_id x] by simp
  have "\<not> is_Open (get_audio w websocket client_id (?evs @ ?close # rest)) \<and>
    writes (outside (world_of (get_audio w websocket client_id (?evs @ ?close # rest)))) =
    writes (outside (world_of (get_audio w websocket client_id (?evs @ [Timeout]))))"
  proof (cases "run_loop ?w0 client_id ?evs")
    case (Receiving v)
    show ?thesis
    proof (cases "loop_body v client_id Timeout")
      case (Continue v')
      with Receiving one [of v] tm [of v] wr [of v'] show ?thesis
        by (simp add: get_audio_alt run_loop_append del: run_loop.simps)
    next
      case (Break v')
      with nb show ?thesis by simp
    next
      case (Raise x v')
      with Receiving one [of v] tm [of v] wr [of v'] ex [of v' x] show ?thesis
        by (simp add: get_audio_alt run_loop_append del: run_loop.simps)
    qed
  next
    case (Broke v)
    then show ?thesis
      by (simp add: get_audio_alt run_loop_append del: run_loop.simps)
  next
    case (Raised x v)
    then show ?thesis
      by (simp add: get_audio_alt run_loop_append del: run_loop.simps)
  qed
  with one [of w] show ?thesis by simp
qed

theorem close_token_finalizes_like_timeout_witness:
  "\<not> is_Open (get_audio (start_world fresh_env) 7 ''abc''
      [Message (Dict (Some [0, 1]) None), Message (Dict (Some [2, 3]) None),
       Message (Dict None (Some ''close()'')), Timeout]) \<and>
   writes (outside (world_of (get_audio (start_world fresh_env) 7 ''abc''
      [Message (Dict (Some [0, 1]) None), Message (Dict (Some [2, 3]) None),
       Message (Dict None (Some ''close()'')), Timeout]))) =
     [(''abc.wav'', Wave 1 4 16000 [0, 0, 0, 0]), (''abc.webm'', Raw [0, 1, 2, 3])] \<and>
   writes (outside (world_of (get_audio (start_world fresh_env) 7 ''abc''
      [Message (Dict (Some [0, 1]) None), Message (Dict (Some [2, 3]) None), Timeout]))) =
     [(''abc.wav'', Wave 1 4 16000 [0, 0, 0, 0]), (''abc.webm'', Raw [0, 1, 2, 3])]"
  using close_token_finalizes_like_timeout
    [of "start_world fresh_env" "''abc''" "[Timeout]" 7 "[[0, 1], [2, 3]]"]
  by (simp add: get_audio_def start_world_def fresh_env_def call_process_audio_frame_def
        call_no_voice_activity_def VoiceReceiverService_def process_audio_frame_def
        no_voice_activity_def save_audio_def save_wav_def init_service_def finally_block_def
        call_pop_clients_audios_def pop_clients_audios_def
        tobytes_def int32_bytes_def f32_of_word_def f32_round_def excess_bits.simps Let_def)

section \<open>The two variants\<close>

lemma main_no_voice_activity_fresh:
  "main_no_voice_activity main_VoiceReceiverService cid e = (None, main_VoiceReceiverService, e)"
  by (simp add: main_no_voice_activity_def main_VoiceReceiverService_def init_service_def)

lemma main_call_no_voice_activity_noop:
  "main_call_no_voice_activity w cid = (None, w)"
  by (simp add: main_call_no_voice_activity_def main_no_voice_activity_fresh)

lemma main_loop_body_writes:
  "main_loop_body w cid ev = Continue w' \<or> main_loop_body w cid ev = Break w'
     \<or> main_loop_body w cid ev = Raise x w' \<Longrightarrow>
   writes (outside w') = writes (outside w)"
  by (induction w cid ev rule: main_loop_body.induct)
     (auto simp: main_call_no_voice_activity_noop main_call_process_audio_frame_def
        main_process_audio_frame_def Let_def split: if_splits)

lemma main_run_loop_writes:
  "main_run_loop w cid evs = Receiving w' \<or> main_run_loop w cid evs = Broke w'
     \<or> main_run_loop w cid evs = Raised x w' \<Longrightarrow>
   writes (outside w') = writes (outside w)"
proof (induction evs arbitrary: w)
  case Nil
  then show ?case by auto
next
  case (Cons ev evs)
  show ?case
  proof (cases "main_loop_body w cid ev")
    case (Continue w1)
    with Cons.prems have "main_run_loop w1 cid evs = Receiving w'
       \<or> main_run_loop w1 cid evs = Broke w' \<or> main_run_loop w1 cid evs = Raised x w'"
      by simp
    from Cons.IH [OF this] main_loop_body_writes [of w cid ev w1 x] Continue show ?thesis
      by simp
  next
    case (Break w1)
    with Cons.prems main_loop_body_writes [of w cid ev w1 x] show ?thesis by auto
  next
    case (Raise y w1)
    with Cons.prems main_loop_body_writes [of w cid ev w1 y] show ?thesis by auto
  qed
qed

lemma main_finally_block_writes:
  "writes (outside (main_finally_block w cid)) = writes (outside w)"
  by (simp add: main_finally_block_def main_call_pop_clients_audios_def)

text \<open>
  C3. In \<^verbatim>\<open>main.py\<close> every \<^verbatim>\<open>VoiceReceiverService()\<close> is a new instance with an
  empty dictionary. So a \<^verbatim>\<open>no_voice_activity\<close> call of the handler finds nothing,
  also right after a chunk was appended, and does nothing; a timeout leaves the world as
  it is; and whatever events arrive, the handler writes no file. The handler of
  \<^verbatim>\<open>app.py\<close>, whose call sites share one instance, writes the two files after one
  chunk and a timeout: the variants differ in what they do.
\<close>

theorem main_variant_never_writes:
  "clients_audios main_VoiceReceiverService client_id = None \<and>
   main_call_no_voice_activity (main_call_process_audio_frame w data client_id) client_id =
     (None, main_call_process_audio_frame w data client_id) \<and>
   main_loop_body w client_id Timeout = Continue w \<and>
   writes (outside (world_of (main_get_audio w websocket client_id evs))) = writes (outside w) \<and>
   writes (outside (world_of (main_get_audio (start_world fresh_env) 7 ''abc''
      [Message (Dict (Some [0, 1]) None), Timeout]))) = [] \<and>
   writes (outside (world_of (get_audio (start_world fresh_env) 7 ''abc''
      [Message (Dict (Some [0, 1]) None), Timeout]))) =
     [(''abc.wav'', Wave 1 4 16000 []), (''abc.webm'', Raw [0, 1])]"
proof -
  let ?w0 = "entered w websocket client_id"
  have w0: "writes (outside ?w0) = writes (outside w)"
    by (simp add: entered_def)
  have m: "main_get_audio w websocket client_id evs =
     (case main_run_loop ?w0 client_id evs of
        Receiving w' \<Rightarrow> Open w'
      | Broke w' \<Rightarrow> Closed None (main_finally_block w' client_id)
      | Raised x w' \<Rightarrow>
          if is_Exception x
          then Closed None (main_finally_block (except_block w' client_id x) client_id)
          else Closed (Some x) (main_finally_block w' client_id))"
    by (simp add: main_get_audio_def entered_def Let_def)
  have never: "writes (outside (world_of (main_get_audio w websocket client_id evs)))
      = writes (outside w)"
  proof (cases "main_run_loop ?w0 client_id evs")
    case (Receiving w')
    with main_run_loop_writes [of ?w0 client_id evs w'] w0 show ?thesis
      by (simp add: m)
  next
    case (Broke w')
    with main_run_loop_writes [of ?w0 client_id evs w'] w0 show ?thesis
      by (simp add: m main_finally_block_writes)
  next
    case (Raised x w')
    with main_run_loop_writes [of ?w0 client_id evs w' x] w0
      except_block_frame [of w' client_id x] show ?thesis
      by (simp add: m main_finally_block_writes)
  qed
  have fresh: "clients_audios main_VoiceReceiverService client_id = None"
    by (simp add: main_VoiceReceiverService_def init_service_def)
  have main_ex: "writes (outside (world_of (main_get_audio (start_world fresh_env) 7 ''abc''
      [Message (Dict (Some [0, 1]) None), Timeout]))) = []"
    by (simp add: main_get_audio_def start_world_def fresh_env_def
        main_call_no_voice_activity_noop main_call_process_audio_frame_def
        main_process_audio_frame_def Let_def)
  have app_ex: "writes (outside (world_of (get_audio (start_world fresh_env) 7 ''abc''
      [Message (Dict (Some [0, 1]) None), Timeout]))) =
     [(''abc.wav'', Wave 1 4 16000 []), (''abc.webm'', Raw [0, 1])]"
    by (simp add: get_audio_def start_world_def fresh_env_def call_process_audio_frame_def
        call_no_voice_activity_def VoiceReceiverService_def process_audio_frame_def
        no_voice_activity_def save_audio_def save_wav_def init_service_def tobytes_def Let_def)
  from fresh never main_ex app_ex show ?thesis
    by (simp add: main_call_no_voice_activity_noop)
qed

end
